theory Spec2Isabelle
  imports Main "HOL-Library.AList"
begin

section \<open>Python values, objects and the store\<close>

text \<open>
  The values that reach \<^verbatim>\<open>recap/types.py\<close>: \<^verbatim>\<open>None\<close>, booleans, unbounded integers,
  strings, lists, and references to the cells of the store (instances of \<^verbatim>\<open>RecapType\<close>
  and its subclasses, and dictionaries). Floating point numbers are not modelled.
\<close>

datatype val =
    VNone
  | VBool bool
  | VInt int
  | VStr string
  | VList "val list"
  | VRef nat

datatype cls =
    RecapType | NullType | BoolType | IntType | FloatType | StringType | BytesType
  | ListType | MapType | StructType | EnumType | UnionType | ProxyType

text \<open>
  The exceptions of the module. \<open>AliasUsed a\<close> is
  \<^verbatim>\<open>ValueError(f"Alias {alias} is already used.")\<close> and \<open>NoAlias a\<close> is
  \<^verbatim>\<open>TypeError(f"No RecapType with alias {alias} found.")\<close>; \<open>ValueError\<close> carries the
  message of the source. \<open>TypeError\<close> and \<open>AttributeError\<close> are raised by the
  interpreter (argument binding, unhashable keys, missing attributes), \<open>RecursionError\<close>
  when the recursion limit is reached.
\<close>

datatype error =
    ValueError string
  | AliasUsed val
  | NoAlias val
  | TypeError string
  | AttributeError string
  | RecursionError

text \<open>
  A store cell is an instance (its class and the address of its \<^verbatim>\<open>__dict__\<close>) or a
  dictionary with string keys, in insertion order. Dictionaries are cells because the module
  updates them in place (\<^verbatim>\<open>extra_attrs[attr] = value\<close>) and hands them on by reference;
  lists are never updated after they are built and stay values.
\<close>

datatype cell = Inst cls nat | Dict "(string \<times> val) list"

text \<open>
  The store: every cell lives at an address (its index in \<open>heap\<close>), and
  \<^verbatim>\<open>RecapType.type_registry\<close> maps keys to addresses of instances.
\<close>

record state =
  heap :: "cell list"
  type_registry :: "(val \<times> nat) list"

text \<open>
  The outcome of a call: an exception or a value, with the store the call leaves behind
  (what it wrote before it raised stays written).
\<close>

datatype 'a res = Raise error state | Return 'a state

text \<open>Sequencing: the continuation receives the value and the store of a normal return.\<close>

primrec bnd :: "'a res \<Rightarrow> ('a \<times> state \<Rightarrow> 'b res) \<Rightarrow> 'b res" where
  "bnd (Raise e s) f = Raise e s"
| "bnd (Return x s) f = f (x, s)"

text \<open>A step that reads the store and may raise, without writing.\<close>

primrec lift :: "error + 'a \<Rightarrow> state \<Rightarrow> ('a \<Rightarrow> 'b res) \<Rightarrow> 'b res" where
  "lift (Inl e) s f = Raise e s"
| "lift (Inr x) s f = f x"

text \<open>
  A dictionary key must be hashable: lists, dictionaries and instances (the classes define
  \<^verbatim>\<open>__eq__\<close> and no \<^verbatim>\<open>__hash__\<close>) are not. \<^verbatim>\<open>True\<close> and \<^verbatim>\<open>1\<close> are the same key.
\<close>

fun key :: "val \<Rightarrow> val option" where
  "key VNone = Some VNone"
| "key (VBool b) = Some (VInt (if b then 1 else 0))"
| "key (VInt i) = Some (VInt i)"
| "key (VStr s) = Some (VStr s)"
| "key (VList xs) = None"
| "key (VRef a) = None"

definition cell_at :: "state \<Rightarrow> nat \<Rightarrow> cell option" where
  "cell_at s a = (if a < length (heap s) then Some (heap s ! a) else None)"

definition dict_at :: "state \<Rightarrow> nat \<Rightarrow> (string \<times> val) list option" where
  "dict_at s a = (case cell_at s a of Some (Dict d) \<Rightarrow> Some d | _ \<Rightarrow> None)"

definition inst_at :: "state \<Rightarrow> nat \<Rightarrow> (cls \<times> nat) option" where
  "inst_at s a = (case cell_at s a of Some (Inst c d) \<Rightarrow> Some (c, d) | _ \<Rightarrow> None)"

text \<open>The \<^verbatim>\<open>__dict__\<close> of the instance at an address.\<close>

definition inst_dict :: "state \<Rightarrow> nat \<Rightarrow> (string \<times> val) list option" where
  "inst_dict s a = (case inst_at s a of None \<Rightarrow> None | Some cd \<Rightarrow> dict_at s (snd cd))"

text \<open>\<^verbatim>\<open>obj.name\<close> for the instance attributes the module reads (none is a class attribute).\<close>

definition getattr :: "state \<Rightarrow> nat \<Rightarrow> string \<Rightarrow> error + val" where
  "getattr s a k =
     (case inst_dict s a of
        None \<Rightarrow> Inl (AttributeError k)
      | Some d \<Rightarrow> (case map_of d k of
                    None \<Rightarrow> Inl (AttributeError k)
                  | Some v \<Rightarrow> Inr v))"

text \<open>\<^verbatim>\<open>d[k] = v\<close> on the dictionary at an address.\<close>

definition dict_store :: "nat \<Rightarrow> string \<Rightarrow> val \<Rightarrow> state \<Rightarrow> state" where
  "dict_store a k v s =
     (case dict_at s a of
        None \<Rightarrow> s
      | Some d \<Rightarrow> s\<lparr>heap := (heap s)[a := Dict (AList.update k v d)]\<rparr>)"

text \<open>\<^verbatim>\<open>self.name = v\<close>: a store into the instance's \<^verbatim>\<open>__dict__\<close>.\<close>

definition set_attr :: "nat \<Rightarrow> string \<Rightarrow> val \<Rightarrow> state \<Rightarrow> state" where
  "set_attr a k v s =
     (case inst_at s a of
        None \<Rightarrow> s
      | Some cd \<Rightarrow> dict_store (snd cd) k v s)"

text \<open>
  A new cell is stored at the first unused address \<open>fresh s\<close>, as a constructor call, a
  call with \<^verbatim>\<open>**extra_attrs\<close> or a copy creates one.
\<close>

definition fresh :: "state \<Rightarrow> nat" where
  "fresh s = length (heap s)"

definition alloc :: "cell \<Rightarrow> state \<Rightarrow> state" where
  "alloc c s = s\<lparr>heap := heap s @ [c]\<rparr>"

section \<open>Calls with keyword arguments\<close>

text \<open>
  Binding of a call \<^verbatim>\<open>f(*args, **kw)\<close> to the named parameters of \<^verbatim>\<open>f\<close> (each with
  its default, if it has one); what is left of \<open>kw\<close> is \<^verbatim>\<open>**extra_attrs\<close>.
\<close>

fun bind_params ::
  "(string \<times> val option) list \<Rightarrow> val list \<Rightarrow> (string \<times> val) list
    \<Rightarrow> error + (val list \<times> (string \<times> val) list)" where
  "bind_params [] [] kw = Inr ([], kw)"
| "bind_params [] (a # as) kw = Inl (TypeError ''too many positional arguments'')"
| "bind_params ((p, d) # ps) (a # as) kw =
     (if map_of kw p \<noteq> None then Inl (TypeError ''multiple values for argument'')
      else case bind_params ps as kw of
             Inl e \<Rightarrow> Inl e
           | Inr (vs, kw') \<Rightarrow> Inr (a # vs, kw'))"
| "bind_params ((p, d) # ps) [] kw =
     (case map_of kw p of
        Some v \<Rightarrow> (case bind_params ps [] (AList.delete p kw) of
                     Inl e \<Rightarrow> Inl e
                   | Inr (vs, kw') \<Rightarrow> Inr (v # vs, kw'))
      | None \<Rightarrow> (case d of
                   None \<Rightarrow> Inl (TypeError ''missing required argument'')
                 | Some v \<Rightarrow> (case bind_params ps [] kw of
                                Inl e \<Rightarrow> Inl e
                              | Inr (vs, kw') \<Rightarrow> Inr (v # vs, kw'))))"

definition bind ::
  "(string \<times> val option) list \<Rightarrow> val list \<Rightarrow> (string \<times> val) list
    \<Rightarrow> error + (val list \<times> (string \<times> val) list)" where
  "bind ps as kw =
     (if map_of kw ''self'' \<noteq> None then Inl (TypeError ''multiple values for argument'')
      else bind_params ps as kw)"

section \<open>The classes\<close>

text \<open>
  \<^verbatim>\<open>RecapType.__init__(self, type_, logical=None, alias=None, doc=None, **extra_attrs)\<close>:
  the five attributes are stored, then a non-\<^verbatim>\<open>None\<close> alias is registered unless it is
  already a key of the registry.
\<close>

definition register :: "nat \<Rightarrow> val \<Rightarrow> state \<Rightarrow> unit res" where
  "register self alias s =
     (if alias \<noteq> VNone then
        (case key alias of
           None \<Rightarrow> Raise (TypeError ''unhashable type'') s
         | Some k \<Rightarrow>
             if map_of (type_registry s) k \<noteq> None then Raise (AliasUsed alias) s
             else Return () (s\<lparr>type_registry := AList.update k self (type_registry s)\<rparr>))
      else Return () s)"

definition RecapType_init ::
  "nat \<Rightarrow> val list \<Rightarrow> (string \<times> val) list \<Rightarrow> state \<Rightarrow> unit res" where
  "RecapType_init self as kw s =
     lift (bind [(''type_'', None), (''logical'', Some VNone), (''alias'', Some VNone),
                (''doc'', Some VNone)] as kw) s
       (\<lambda>b. register self (fst b ! 2)
          (set_attr self ''extra_attrs'' (VRef (fresh s))
            (set_attr self ''doc'' (fst b ! 3)
              (set_attr self ''alias'' (fst b ! 2)
                (set_attr self ''logical'' (fst b ! 1)
                  (set_attr self ''type_'' (fst b ! 0)
                    (alloc (Dict (snd b)) s)))))))"

text \<open>
  A subclass constructor binds its own parameters, calls
  \<^verbatim>\<open>super().__init__(tag, **extra_attrs)\<close> and then stores its own attributes:
  \<open>sub_init self tag params attrs\<close>, where \<open>attrs\<close> computes the stored attributes from
  the bound parameters.
\<close>

primrec set_attrs :: "nat \<Rightarrow> (string \<times> val) list \<Rightarrow> state \<Rightarrow> state" where
  "set_attrs self [] s = s"
| "set_attrs self (kv # kvs) s = set_attrs self kvs (set_attr self (fst kv) (snd kv) s)"

definition sub_init ::
  "nat \<Rightarrow> string \<Rightarrow> (string \<times> val option) list \<Rightarrow> (val list \<Rightarrow> (string \<times> val) list)
    \<Rightarrow> val list \<Rightarrow> (string \<times> val) list \<Rightarrow> state \<Rightarrow> unit res" where
  "sub_init self tag params attrs as kw s =
     lift (bind params as kw) s
       (\<lambda>b. bnd (RecapType_init self [VStr tag] (snd b) s)
          (\<lambda>r. Return () (set_attrs self (attrs (fst b)) (snd r))))"

fun init :: "cls \<Rightarrow> nat \<Rightarrow> val list \<Rightarrow> (string \<times> val) list \<Rightarrow> state \<Rightarrow> unit res" where
  "init RecapType self = RecapType_init self"
| "init NullType self = sub_init self ''null'' [] (\<lambda>vs. [])"
| "init BoolType self = sub_init self ''bool'' [] (\<lambda>vs. [])"
| "init IntType self =
     sub_init self ''int'' [(''bits'', None), (''signed'', Some (VBool True))]
       (\<lambda>vs. [(''bits'', vs ! 0), (''signed'', vs ! 1)])"
| "init FloatType self =
     sub_init self ''float'' [(''bits'', None)] (\<lambda>vs. [(''bits'', vs ! 0)])"
| "init StringType self =
     sub_init self ''string'' [(''bytes_'', None), (''variable'', Some (VBool True))]
       (\<lambda>vs. [(''bytes_'', vs ! 0), (''variable'', vs ! 1)])"
| "init BytesType self =
     sub_init self ''bytes'' [(''bytes_'', None), (''variable'', Some (VBool True))]
       (\<lambda>vs. [(''bytes_'', vs ! 0), (''variable'', vs ! 1)])"
| "init ListType self =
     sub_init self ''list''
       [(''values'', None), (''length'', Some VNone), (''variable'', Some (VBool True))]
       (\<lambda>vs. [(''values'', vs ! 0), (''length'', vs ! 1), (''variable'', vs ! 2)])"
| "init MapType self =
     sub_init self ''map'' [(''keys'', None), (''values'', None)]
       (\<lambda>vs. [(''keys'', vs ! 0), (''values'', vs ! 1)])"
| "init StructType self =
     sub_init self ''struct'' [(''fields'', Some VNone)]
       (\<lambda>vs. [(''fields'', if vs ! 0 \<noteq> VNone then vs ! 0 else VList [])])"
| "init EnumType self =
     sub_init self ''enum'' [(''symbols'', None)] (\<lambda>vs. [(''symbols'', vs ! 0)])"
| "init UnionType self =
     sub_init self ''union'' [(''types'', None)] (\<lambda>vs. [(''types'', vs ! 0)])"
| "init ProxyType self =
     sub_init self ''proxy'' [(''alias'', None)]
       (\<lambda>vs. [(''alias'', vs ! 0), (''_resolved'', VNone)])"

text \<open>\<^verbatim>\<open>C(*args, **kw)\<close>: a new instance with an empty \<^verbatim>\<open>__dict__\<close>, then \<^verbatim>\<open>__init__\<close>.\<close>

definition new :: "cls \<Rightarrow> val list \<Rightarrow> (string \<times> val) list \<Rightarrow> state \<Rightarrow> nat res" where
  "new c as kw s =
     bnd (init c (Suc (fresh s)) as kw (alloc (Inst c (fresh s)) (alloc (Dict []) s)))
       (\<lambda>r. Return (Suc (fresh s)) (snd r))"

section \<open>The alias registry\<close>

text \<open>
  \<^verbatim>\<open>RecapType.from_alias\<close>: the registry lookup, a \<^verbatim>\<open>KeyError\<close> turned into the
  \<^verbatim>\<open>TypeError\<close> of the source. An unhashable key raises the interpreter's own
  \<^verbatim>\<open>TypeError\<close>, which the \<^verbatim>\<open>except KeyError\<close> does not catch.
\<close>

definition from_alias :: "val \<Rightarrow> state \<Rightarrow> error + nat" where
  "from_alias alias s =
     (case key alias of
        None \<Rightarrow> Inl (TypeError ''unhashable type'')
      | Some k \<Rightarrow> (case map_of (type_registry s) k of
                    None \<Rightarrow> Inl (NoAlias alias)
                  | Some a \<Rightarrow> Inr a))"

text \<open>
  The built-in aliases, in the order of the dictionary literal: alias, class, positional and
  keyword arguments of the constructor call.
\<close>

definition builtins :: "(string \<times> cls \<times> val list \<times> (string \<times> val) list) list" where
  "builtins =
    [(''int8'', IntType, [VInt 8], [(''signed'', VBool True)]),
     (''uint8'', IntType, [VInt 8], [(''signed'', VBool False)]),
     (''int16'', IntType, [VInt 16], [(''signed'', VBool True)]),
     (''uint16'', IntType, [VInt 16], [(''signed'', VBool False)]),
     (''int32'', IntType, [VInt 32], [(''signed'', VBool True)]),
     (''uint32'', IntType, [VInt 32], [(''signed'', VBool False)]),
     (''int64'', IntType, [VInt 64], [(''signed'', VBool True)]),
     (''uint64'', IntType, [VInt 64], [(''signed'', VBool False)]),
     (''float16'', FloatType, [VInt 16], []),
     (''float32'', FloatType, [VInt 32], []),
     (''float64'', FloatType, [VInt 64], []),
     (''string32'', StringType, [], [(''bytes_'', VInt 2147483648), (''variable'', VBool True)]),
     (''string64'', StringType, [],
        [(''bytes_'', VInt 9223372036854775807), (''variable'', VBool True)]),
     (''bytes32'', BytesType, [], [(''bytes_'', VInt 2147483648), (''variable'', VBool True)]),
     (''bytes64'', BytesType, [],
        [(''bytes_'', VInt 9223372036854775807), (''variable'', VBool True)]),
     (''uuid'', StringType, [],
        [(''logical'', VStr ''build.recap.UUID''), (''bytes_'', VInt 36),
         (''variable'', VBool False)]),
     (''decimal128'', BytesType, [],
        [(''logical'', VStr ''build.recap.Decimal''), (''bytes_'', VInt 16),
         (''variable'', VBool False), (''precision'', VInt 28), (''scale'', VInt 14)]),
     (''decimal256'', BytesType, [],
        [(''logical'', VStr ''build.recap.Decimal''), (''bytes_'', VInt 32),
         (''variable'', VBool False), (''precision'', VInt 56), (''scale'', VInt 28)]),
     (''duration64'', IntType, [],
        [(''logical'', VStr ''build.recap.Duration''), (''bits'', VInt 64),
         (''signed'', VBool True), (''unit'', VStr ''millisecond'')]),
     (''interval128'', BytesType, [],
        [(''logical'', VStr ''build.recap.Interval''), (''bytes_'', VInt 16),
         (''variable'', VBool False), (''unit'', VStr ''millisecond'')]),
     (''time32'', IntType, [],
        [(''logical'', VStr ''build.recap.Time''), (''bits'', VInt 32),
         (''signed'', VBool True), (''unit'', VStr ''second'')]),
     (''time64'', IntType, [],
        [(''logical'', VStr ''build.recap.Time''), (''bits'', VInt 64),
         (''signed'', VBool True), (''unit'', VStr ''second'')]),
     (''timestamp64'', IntType, [],
        [(''logical'', VStr ''build.recap.Timestamp''), (''bits'', VInt 64),
         (''signed'', VBool True), (''unit'', VStr ''millisecond''),
         (''timezone'', VStr ''UTC'')]),
     (''date32'', IntType, [],
        [(''logical'', VStr ''build.recap.Date''), (''bits'', VInt 32),
         (''signed'', VBool True), (''unit'', VStr ''day'')]),
     (''date64'', IntType, [],
        [(''logical'', VStr ''build.recap.Date''), (''bits'', VInt 64),
         (''signed'', VBool True), (''unit'', VStr ''day'')])]"

text \<open>
  The dictionary literal is evaluated first (every constructor call, in order), then
  \<^verbatim>\<open>type_registry.update\<close> stores its entries.
\<close>

fun build_all ::
  "(string \<times> cls \<times> val list \<times> (string \<times> val) list) list \<Rightarrow> state
    \<Rightarrow> (string \<times> nat) list res" where
  "build_all [] s = Return [] s"
| "build_all ((name, c, as, kw) # bs) s =
     bnd (new c as kw s)
       (\<lambda>r. bnd (build_all bs (snd r)) (\<lambda>r'. Return ((name, fst r) # fst r') (snd r')))"

primrec registry_update :: "(string \<times> nat) list \<Rightarrow> state \<Rightarrow> state" where
  "registry_update [] s = s"
| "registry_update (ka # kas) s =
     registry_update kas
       (s\<lparr>type_registry := AList.update (VStr (fst ka)) (snd ka) (type_registry s)\<rparr>)"

text \<open>The state of the module once it is imported.\<close>

definition initial_state :: state where
  "initial_state =
     (case build_all builtins \<lparr>heap = [], type_registry = []\<rparr> of
        Raise e s \<Rightarrow> s
      | Return kas s \<Rightarrow> registry_update kas s)"

section \<open>The dictionary parser\<close>

text \<open>
  The input of \<^verbatim>\<open>from_dict\<close>: a nested mapping as a JSON or YAML loader produces it, a
  tree without sharing.
\<close>

datatype json =
    JNull
  | JBool bool
  | JInt int
  | JStr string
  | JList "json list"
  | JDict "(string \<times> json) list"

text \<open>
  When a value of the input is handed to a constructor it is a reference into the caller's
  data. \<open>jval n j\<close> is that value and \<open>jcells n j\<close> are the dictionaries of \<open>j\<close>, laid
  out in the store from address \<open>n\<close> on (the entries of a dictionary first, then the
  dictionary).
\<close>

fun jcells :: "nat \<Rightarrow> json \<Rightarrow> cell list"
  and jcells_list :: "nat \<Rightarrow> json list \<Rightarrow> cell list"
  and jcells_items :: "nat \<Rightarrow> (string \<times> json) list \<Rightarrow> cell list"
  and jval :: "nat \<Rightarrow> json \<Rightarrow> val"
  and jval_list :: "nat \<Rightarrow> json list \<Rightarrow> val list"
  and jval_items :: "nat \<Rightarrow> (string \<times> json) list \<Rightarrow> (string \<times> val) list" where
  "jcells n JNull = []"
| "jcells n (JBool b) = []"
| "jcells n (JInt i) = []"
| "jcells n (JStr s) = []"
| "jcells n (JList xs) = jcells_list n xs"
| "jcells n (JDict d) = jcells_items n d @ [Dict (jval_items n d)]"
| "jcells_list n [] = []"
| "jcells_list n (x # xs) = jcells n x @ jcells_list (n + length (jcells n x)) xs"
| "jcells_items n [] = []"
| "jcells_items n (kv # d) =
     jcells n (snd kv) @ jcells_items (n + length (jcells n (snd kv))) d"
| "jval n JNull = VNone"
| "jval n (JBool b) = VBool b"
| "jval n (JInt i) = VInt i"
| "jval n (JStr s) = VStr s"
| "jval n (JList xs) = VList (jval_list n xs)"
| "jval n (JDict d) = VRef (n + length (jcells_items n d))"
| "jval_list n [] = []"
| "jval_list n (x # xs) = jval n x # jval_list (n + length (jcells n x)) xs"
| "jval_items n [] = []"
| "jval_items n (kv # d) =
     (fst kv, jval n (snd kv)) # jval_items (n + length (jcells n (snd kv))) d"

text \<open>\<^verbatim>\<open>**type_dict\<close>: the keyword arguments of a constructor call, and the store they live in.\<close>

definition kwargs :: "(string \<times> json) list \<Rightarrow> state \<Rightarrow> (string \<times> val) list" where
  "kwargs td s = jval_items (fresh s) td"

definition with_kwargs :: "(string \<times> json) list \<Rightarrow> state \<Rightarrow> state" where
  "with_kwargs td s = s\<lparr>heap := heap s @ jcells_items (fresh s) td\<rparr>"

text \<open>Truth value of an input value, as \<^verbatim>\<open>if alias:\<close> tests it, and the key it is.\<close>

fun truthy :: "json \<Rightarrow> bool" where
  "truthy JNull = False"
| "truthy (JBool b) = b"
| "truthy (JInt i) = (i \<noteq> 0)"
| "truthy (JStr s) = (s \<noteq> [])"
| "truthy (JList xs) = (xs \<noteq> [])"
| "truthy (JDict d) = (d \<noteq> [])"

text \<open>\<^verbatim>\<open>d.pop(k, None)\<close> and \<^verbatim>\<open>d.get(k)\<close> read as \<^verbatim>\<open>None\<close> what is missing.\<close>

definition get_or_none :: "(string \<times> json) list \<Rightarrow> string \<Rightarrow> json" where
  "get_or_none d k = (case map_of d k of None \<Rightarrow> JNull | Some v \<Rightarrow> v)"

text \<open>The measure of the recursion of the parser.\<close>

fun jsize :: "json \<Rightarrow> nat"
  and lsize :: "json list \<Rightarrow> nat"
  and isize :: "(string \<times> json) list \<Rightarrow> nat" where
  "jsize JNull = 0"
| "jsize (JBool b) = 0"
| "jsize (JInt i) = 0"
| "jsize (JStr s) = 0"
| "jsize (JList xs) = Suc (lsize xs)"
| "jsize (JDict d) = Suc (isize d)"
| "lsize [] = 0"
| "lsize (x # xs) = 3 + jsize x + lsize xs"
| "isize [] = 0"
| "isize (kv # d) = Suc (jsize (snd kv) + isize d)"

fun jkey :: "json \<Rightarrow> val option" where
  "jkey JNull = Some VNone"
| "jkey (JBool b) = Some (VInt (if b then 1 else 0))"
| "jkey (JInt i) = Some (VInt i)"
| "jkey (JStr s) = Some (VStr s)"
| "jkey (JList xs) = None"
| "jkey (JDict d) = None"

text \<open>
  The end of \<^verbatim>\<open>from_dict\<close>: \<^verbatim>\<open>if alias: RecapType.type_registry[alias] = recap_type\<close>,
  a plain store into the registry.
\<close>

definition store_alias :: "json \<Rightarrow> nat \<Rightarrow> state \<Rightarrow> nat res" where
  "store_alias alias a s =
     (if truthy alias then
        (case jkey alias of
           None \<Rightarrow> Raise (TypeError ''unhashable type'') s
         | Some k \<Rightarrow> Return a (s\<lparr>type_registry := AList.update k a (type_registry s)\<rparr>))
      else Return a s)"

text \<open>What is left of \<^verbatim>\<open>type_dict\<close> once \<^verbatim>\<open>alias\<close> and \<^verbatim>\<open>type\<close> are popped.\<close>

definition rest :: "(string \<times> json) list \<Rightarrow> (string \<times> json) list" where
  "rest td = AList.delete ''type'' (AList.delete ''alias'' td)"

text \<open>
  \<^verbatim>\<open>from_dict\<close>. \<open>from_name\<close> is its \<^verbatim>\<open>match type_name\<close> statement, \<open>union_each\<close> the
  loop of the union shorthand, \<open>from_dict_each\<close> the comprehension
  \<^verbatim>\<open>[from_dict(t) for t in ts]\<close> over a list and \<open>from_dict_iter\<close> the same over any
  value: iterating a dictionary or a string yields strings, on which \<^verbatim>\<open>from_dict\<close> raises
  at once (\<^verbatim>\<open>str\<close> has no \<^verbatim>\<open>copy\<close>), and the other values are not iterable.
\<close>

lemma bnd_cong [fundef_cong]:
  "r = r' \<Longrightarrow> (\<And>p. f p = f' p) \<Longrightarrow> bnd r f = bnd r' f'"
  by (cases r') simp_all

lemma lift_cong [fundef_cong]:
  "r = r' \<Longrightarrow> s = s' \<Longrightarrow> (\<And>x. f x = f' x) \<Longrightarrow> lift r s f = lift r' s' f'"
  by (cases r') simp_all

lemma jsize_map_of: "map_of d k = Some v \<Longrightarrow> jsize v < isize d"
  by (induction d) (auto split: if_splits)

lemma isize_delete: "isize (AList.delete k d) \<le> isize d"
  by (induction d) auto

lemma jsize_get_or_none: "map_of td k = Some y \<Longrightarrow> jsize (get_or_none td k) \<le> isize td"
  by (auto simp: get_or_none_def dest: jsize_map_of)

lemma lsize_get_or_none: "get_or_none td k = JList ts \<Longrightarrow> lsize ts < isize td"
  by (auto simp: get_or_none_def dest: jsize_map_of split: option.splits)

lemma isize_rest: "isize (rest td) \<le> isize td"
  unfolding rest_def by (meson isize_delete le_trans)

function from_dict :: "json \<Rightarrow> state \<Rightarrow> nat res"
  and from_name :: "string \<Rightarrow> (string \<times> json) list \<Rightarrow> state \<Rightarrow> nat res"
  and union_each :: "json list \<Rightarrow> state \<Rightarrow> val list res"
  and from_dict_each :: "json list \<Rightarrow> state \<Rightarrow> val list res"
  and from_dict_iter :: "json \<Rightarrow> state \<Rightarrow> val list res" where
  "from_dict (JDict td) s =
     (if get_or_none td ''type'' = JNull then
        Raise (ValueError '''type' is a required field and was not found in the dictionary.'') s
      else
        bnd (case get_or_none td ''type'' of
               JList ts \<Rightarrow>
                 bnd (union_each ts s)
                   (\<lambda>r. new UnionType [VList (fst r)] (kwargs (rest td) (snd r))
                          (with_kwargs (rest td) (snd r)))
             | JStr name \<Rightarrow> from_name name (rest td) s
             | _ \<Rightarrow> Raise (ValueError '''type' must be a string or list.'') s)
          (\<lambda>r. store_alias (get_or_none td ''alias'') (fst r) (snd r)))"
| "from_dict (JList xs) s = Raise (TypeError ''pop expected at most 1 argument'') s"
| "from_dict (JStr x) s = Raise (AttributeError ''copy'') s"
| "from_dict (JInt i) s = Raise (AttributeError ''copy'') s"
| "from_dict (JBool b) s = Raise (AttributeError ''copy'') s"
| "from_dict JNull s = Raise (AttributeError ''copy'') s"
| "from_name name td s =
     (if name = ''null'' then new NullType [] (kwargs td s) (with_kwargs td s)
      else if name = ''bool'' then new BoolType [] (kwargs td s) (with_kwargs td s)
      else if name = ''int'' then
        (if map_of td ''bits'' = None then
           Raise (ValueError '''bits' attribute is required for 'int' type.'') s
         else new IntType [] (kwargs td s) (with_kwargs td s))
      else if name = ''float'' then
        (if map_of td ''bits'' = None then
           Raise (ValueError '''bits' attribute is required for 'float' type.'') s
         else new FloatType [] (kwargs td s) (with_kwargs td s))
      else if name = ''string'' then
        (if map_of td ''bytes'' = None then
           Raise (ValueError '''bytes' attribute is required for 'string' type.'') s
         else new StringType []
                (kwargs (AList.update ''bytes_'' (get_or_none td ''bytes'')
                          (AList.delete ''bytes'' td)) s)
                (with_kwargs (AList.update ''bytes_'' (get_or_none td ''bytes'')
                          (AList.delete ''bytes'' td)) s))
      else if name = ''bytes'' then
        (if map_of td ''bytes'' = None then
           Raise (ValueError '''bytes' attribute is required for 'bytes' type.'') s
         else new BytesType []
                (kwargs (AList.update ''bytes_'' (get_or_none td ''bytes'')
                          (AList.delete ''bytes'' td)) s)
                (with_kwargs (AList.update ''bytes_'' (get_or_none td ''bytes'')
                          (AList.delete ''bytes'' td)) s))
      else if name = ''list'' then
        (if map_of td ''values'' = None then
           Raise (ValueError '''values' attribute is required for 'list' type.'') s
         else bnd (from_dict (get_or_none td ''values'') s)
                (\<lambda>r. new ListType [VRef (fst r)]
                       (kwargs (AList.delete ''values'' td) (snd r))
                       (with_kwargs (AList.delete ''values'' td) (snd r))))
      else if name = ''map'' then
        (if map_of td ''keys'' = None \<or> map_of td ''values'' = None then
           Raise (ValueError '''keys' and 'values' attributes are required for 'map' type.'') s
         else bnd (from_dict (get_or_none td ''keys'') s)
                (\<lambda>r. bnd (from_dict (get_or_none td ''values'') (snd r))
                   (\<lambda>r'. new MapType [VRef (fst r), VRef (fst r')]
                          (kwargs (AList.delete ''values'' (AList.delete ''keys'' td)) (snd r'))
                          (with_kwargs (AList.delete ''values'' (AList.delete ''keys'' td))
                             (snd r')))))
      else if name = ''struct'' then
        bnd (if map_of td ''fields'' = None then Return [] s
             else from_dict_iter (get_or_none td ''fields'') s)
          (\<lambda>r. new StructType []
                 ((''fields'', VList (fst r)) # kwargs (AList.delete ''fields'' td) (snd r))
                 (with_kwargs (AList.delete ''fields'' td) (snd r)))
      else if name = ''enum'' then
        (if map_of td ''symbols'' = None then
           Raise (ValueError '''symbols' attribute is required for 'enum' type.'') s
         else new EnumType [] (kwargs td s) (with_kwargs td s))
      else if name = ''union'' then
        (if map_of td ''types'' = None then
           Raise (ValueError '''types' attribute is required for 'union' type.'') s
         else bnd (from_dict_iter (get_or_none td ''types'') s)
                (\<lambda>r. new UnionType [VList (fst r)]
                       (kwargs (AList.delete ''types'' td) (snd r))
                       (with_kwargs (AList.delete ''types'' td) (snd r))))
      else new ProxyType [VStr name] (kwargs td s) (with_kwargs td s))"
| "union_each [] s = Return [] s"
| "union_each (t # ts) s =
     (case t of
        JDict d \<Rightarrow>
          bnd (from_dict (JDict d) s)
            (\<lambda>r. bnd (union_each ts (snd r)) (\<lambda>r'. Return (VRef (fst r) # fst r') (snd r')))
      | JStr x \<Rightarrow>
          bnd (from_dict (JDict [(''type'', JStr x)]) s)
            (\<lambda>r. bnd (union_each ts (snd r)) (\<lambda>r'. Return (VRef (fst r) # fst r') (snd r')))
      | _ \<Rightarrow> union_each ts s)"
| "from_dict_each [] s = Return [] s"
| "from_dict_each (t # ts) s =
     bnd (from_dict t s)
       (\<lambda>r. bnd (from_dict_each ts (snd r)) (\<lambda>r'. Return (VRef (fst r) # fst r') (snd r')))"
| "from_dict_iter (JList xs) s = from_dict_each xs s"
| "from_dict_iter (JDict d) s =
     (if d = [] then Return [] s else Raise (AttributeError ''copy'') s)"
| "from_dict_iter (JStr x) s =
     (if x = [] then Return [] s else Raise (AttributeError ''copy'') s)"
| "from_dict_iter (JInt i) s = Raise (TypeError ''object is not iterable'') s"
| "from_dict_iter (JBool b) s = Raise (TypeError ''object is not iterable'') s"
| "from_dict_iter JNull s = Raise (TypeError ''object is not iterable'') s"
  by pat_completeness auto

termination
  apply (relation "measure (\<lambda>x. case x of
      Inl (Inl p) \<Rightarrow> 2 * jsize (fst p) + 1
    | Inl (Inr p) \<Rightarrow> 2 * Suc (isize (fst (snd p)))
    | Inr (Inl p) \<Rightarrow> 2 * lsize (fst p) + 1
    | Inr (Inr (Inl p)) \<Rightarrow> 2 * lsize (fst p) + 1
    | Inr (Inr (Inr p)) \<Rightarrow> 2 * jsize (fst p) + 1)")
  apply (simp_all add: less_Suc_eq_le isize_rest)
  apply (auto dest: lsize_get_or_none jsize_get_or_none simp: less_Suc_eq_le)
  done

section \<open>The proxy resolver\<close>

text \<open>
  \<^verbatim>\<open>copy.deepcopy\<close> duplicates the cells reachable from its argument, keeps the sharing among
  them, and gives every copied instance a \<^verbatim>\<open>__dict__\<close> of its own, filled from the copy of
  the original's. The model duplicates every cell of the store, which contains what is
  reachable: with \<open>n\<close> cells in the store, the copy of the cell at \<open>a\<close> is at \<open>n + a\<close>,
  and the \<^verbatim>\<open>__dict__\<close> of a copied instance at \<open>2 * n + a\<close>. The copies that no reference
  leads to are garbage.
\<close>

fun shift_val :: "nat \<Rightarrow> val \<Rightarrow> val" where
  "shift_val n (VRef a) = VRef (n + a)"
| "shift_val n (VList xs) = VList (map (shift_val n) xs)"
| "shift_val n VNone = VNone"
| "shift_val n (VBool b) = VBool b"
| "shift_val n (VInt i) = VInt i"
| "shift_val n (VStr x) = VStr x"

definition shift_items :: "nat \<Rightarrow> (string \<times> val) list \<Rightarrow> (string \<times> val) list" where
  "shift_items n d = map (\<lambda>kv. (fst kv, shift_val n (snd kv))) d"

fun copy_cell :: "nat \<Rightarrow> nat \<Rightarrow> cell \<Rightarrow> cell" where
  "copy_cell n a (Inst c d) = Inst c (2 * n + a)"
| "copy_cell n a (Dict d) = Dict (shift_items n d)"

fun copy_dict :: "state \<Rightarrow> cell \<Rightarrow> cell" where
  "copy_dict s (Inst c d) =
     Dict (shift_items (fresh s) (case dict_at s d of None \<Rightarrow> [] | Some kv \<Rightarrow> kv))"
| "copy_dict s (Dict d) = Dict []"

definition deepcopy :: "state \<Rightarrow> state" where
  "deepcopy s =
     s\<lparr>heap := heap s
                @ map (\<lambda>a. copy_cell (fresh s) a (heap s ! a)) [0..<fresh s]
                @ map (copy_dict s) (heap s)\<rparr>"

text \<open>
  \<^verbatim>\<open>hasattr\<close> on an instance: the name is in its \<^verbatim>\<open>__dict__\<close>, or defined by its class, by
  \<^verbatim>\<open>RecapType\<close> or by \<^verbatim>\<open>object\<close> (the names of CPython 3.10, the first version with
  \<^verbatim>\<open>match\<close>).
\<close>

definition class_attrs :: "cls \<Rightarrow> string list" where
  "class_attrs c =
     (if c = ProxyType then [''resolve''] else []) @
     [''type_registry'', ''from_alias'', ''__init__'', ''__eq__'', ''__hash__'', ''__module__'',
      ''__doc__'', ''__dict__'', ''__weakref__'', ''__annotations__'', ''__class__'',
      ''__delattr__'', ''__dir__'', ''__format__'', ''__ge__'', ''__getattribute__'', ''__gt__'',
      ''__init_subclass__'', ''__le__'', ''__lt__'', ''__ne__'', ''__new__'', ''__reduce__'',
      ''__reduce_ex__'', ''__repr__'', ''__setattr__'', ''__sizeof__'', ''__str__'',
      ''__subclasshook__'']"

definition hasattr :: "state \<Rightarrow> nat \<Rightarrow> string \<Rightarrow> bool" where
  "hasattr s a k =
     (case inst_at s a of
        None \<Rightarrow> False
      | Some cd \<Rightarrow>
          (case dict_at s (snd cd) of None \<Rightarrow> False | Some d \<Rightarrow> map_of d k \<noteq> None)
          \<or> k \<in> set (class_attrs (fst cd)))"

text \<open>
  \<^verbatim>\<open>setattr\<close> on an instance: a store into its \<^verbatim>\<open>__dict__\<close>, but for \<^verbatim>\<open>__class__\<close> (the
  value is never a class), \<^verbatim>\<open>__weakref__\<close> (not writable) and \<^verbatim>\<open>__dict__\<close> (the instance
  takes the given dictionary, itself, as its \<^verbatim>\<open>__dict__\<close>).
\<close>

definition setattr :: "nat \<Rightarrow> string \<Rightarrow> val \<Rightarrow> state \<Rightarrow> unit res" where
  "setattr a k v s =
     (if k = ''__class__'' then Raise (TypeError ''__class__ must be set to a class'') s
      else if k = ''__weakref__'' then Raise (AttributeError ''__weakref__'') s
      else if k = ''__dict__'' then
        (case v of
           VRef d \<Rightarrow>
             (case dict_at s d of
                None \<Rightarrow> Raise (TypeError ''__dict__ must be set to a dictionary'') s
              | Some kv \<Rightarrow>
                  (case inst_at s a of
                     None \<Rightarrow> Return () s
                   | Some cd \<Rightarrow> Return () (s\<lparr>heap := (heap s)[a := Inst (fst cd) d]\<rparr>)))
         | _ \<Rightarrow> Raise (TypeError ''__dict__ must be set to a dictionary'') s)
      else Return () (set_attr a k v s))"

text \<open>\<^verbatim>\<open>x.extra_attrs[attr] = value\<close>: only a dictionary supports the assignment.\<close>

definition setitem :: "val \<Rightarrow> string \<Rightarrow> val \<Rightarrow> state \<Rightarrow> unit res" where
  "setitem e k v s =
     (case e of
        VRef d \<Rightarrow>
          (case dict_at s d of
             None \<Rightarrow> Raise (TypeError ''object does not support item assignment'') s
           | Some kv \<Rightarrow> Return () (dict_store d k v s))
      | _ \<Rightarrow> Raise (TypeError ''object does not support item assignment'') s)"

text \<open>
  The body of the loop of \<^verbatim>\<open>resolve\<close>, for one entry of \<^verbatim>\<open>self.extra_attrs\<close>. Should
  \<^verbatim>\<open>self._resolved\<close> not be an instance, neither branch can succeed: no attribute of a
  built-in value can be set, and it has no \<^verbatim>\<open>extra_attrs\<close>.
\<close>

definition override :: "nat \<Rightarrow> string \<times> val \<Rightarrow> state \<Rightarrow> unit res" where
  "override self kv s =
     lift (getattr s self ''_resolved'') s
       (\<lambda>r. case (case r of VRef c \<Rightarrow> (if inst_at s c = None then None else Some c)
                             | _ \<Rightarrow> None) of
               None \<Rightarrow>
                 Raise (if fst kv = ''__class__''
                        then TypeError ''__class__ must be set to a class''
                        else AttributeError (fst kv)) s
             | Some c \<Rightarrow>
                 if hasattr s c (fst kv) then setattr c (fst kv) (snd kv) s
                 else lift (getattr s c ''extra_attrs'') s
                        (\<lambda>e. setitem e (fst kv) (snd kv) s))"

primrec overrides :: "nat \<Rightarrow> (string \<times> val) list \<Rightarrow> state \<Rightarrow> unit res" where
  "overrides self [] s = Return () s"
| "overrides self (kv # kvs) s = bnd (override self kv s) (\<lambda>r. overrides self kvs (snd r))"

text \<open>\<^verbatim>\<open>x.items()\<close>: only a dictionary has the method.\<close>

definition items :: "state \<Rightarrow> val \<Rightarrow> error + (string \<times> val) list" where
  "items s e =
     (case e of
        VRef d \<Rightarrow> (case dict_at s d of None \<Rightarrow> Inl (AttributeError ''items'') | Some kv \<Rightarrow> Inr kv)
      | _ \<Rightarrow> Inl (AttributeError ''items''))"

text \<open>\<^verbatim>\<open>self._resolved = copy.deepcopy(t)\<close> for the instance at \<open>t\<close>.\<close>

definition assign_copy :: "nat \<Rightarrow> nat \<Rightarrow> state \<Rightarrow> state" where
  "assign_copy self t s = set_attr self ''_resolved'' (VRef (fresh s + t)) (deepcopy s)"

text \<open>
  \<^verbatim>\<open>ProxyType.resolve\<close>. The entries of \<^verbatim>\<open>self.extra_attrs\<close> are read when the loop
  starts: a store of the loop into that very dictionary can only write an entry it already
  has.
\<close>

definition apply_overrides :: "nat \<Rightarrow> state \<Rightarrow> val res" where
  "apply_overrides self s =
     lift (getattr s self ''extra_attrs'') s
       (\<lambda>e. lift (items s e) s
          (\<lambda>kvs. bnd (overrides self kvs s)
             (\<lambda>r. lift (getattr (snd r) self ''_resolved'') (snd r)
                (\<lambda>v. Return v (snd r)))))"

definition resolve :: "nat \<Rightarrow> state \<Rightarrow> val res" where
  "resolve self s =
     lift (getattr s self ''_resolved'') s
       (\<lambda>r. if r = VNone then
               lift (getattr s self ''alias'') s
                 (\<lambda>alias. lift (from_alias alias s) s
                    (\<lambda>t. apply_overrides self (assign_copy self t s)))
             else Return r s)"

section \<open>Writes that leave the registry alone\<close>

lemma registry_dict_store [simp]: "type_registry (dict_store a k v s) = type_registry s"
  by (simp add: dict_store_def split: option.splits)

lemma registry_set_attr [simp]: "type_registry (set_attr a k v s) = type_registry s"
  by (simp add: set_attr_def split: option.splits)

lemma registry_set_attrs [simp]: "type_registry (set_attrs a kvs s) = type_registry s"
  by (induction kvs arbitrary: s) simp_all

lemma registry_alloc [simp]: "type_registry (alloc c s) = type_registry s"
  by (simp add: alloc_def)

section \<open>Registration by the constructor\<close>

text \<open>
  C2. Every subclass constructor (\<open>init c\<close> is a \<open>sub_init\<close>) hands the keyword arguments it
  does not bind itself to \<^verbatim>\<open>RecapType.__init__\<close>. When the alias bound there is not
  \<^verbatim>\<open>None\<close> and is a key \<open>k\<close>: if \<open>k\<close> is already in the registry the construction raises
  the alias-collision error and the registry is what it was, so it still maps \<open>k\<close> to the
  first instance; if \<open>k\<close> is not in the registry the construction returns the new instance
  and the registry maps \<open>k\<close> to it.
\<close>

theorem alias_collision:
  assumes i: "\<And>self. init c self = sub_init self tag params attrs"
    and b1: "bind params as kw = Inr (vs, kw1)"
    and b2: "bind [(''type_'', None), (''logical'', Some VNone), (''alias'', Some VNone),
                (''doc'', Some VNone)] [VStr tag] kw1 = Inr (bs, extra)"
    and a: "bs ! 2 \<noteq> VNone" and k: "key (bs ! 2) = Some k"
  shows "(map_of (type_registry s) k \<noteq> None \<longrightarrow>
            (\<exists>s'. new c as kw s = Raise (AliasUsed (bs ! 2)) s'
                 \<and> type_registry s' = type_registry s))
       \<and> (map_of (type_registry s) k = None \<longrightarrow>
            (\<exists>s'. new c as kw s = Return (Suc (fresh s)) s'
                 \<and> type_registry s' = AList.update k (Suc (fresh s)) (type_registry s)))"
  using b1 b2 a k
  by (simp add: new_def i sub_init_def RecapType_init_def register_def)

lemma bind_int8_alias:
  "bind [(''bits'', None), (''signed'', Some (VBool True))] [VInt 8] [(''alias'', VStr ''int8'')]
     = Inr ([VInt 8, VBool True], [(''alias'', VStr ''int8'')])"
  by (simp add: bind_def)

lemma bind_base_alias:
  "bind [(''type_'', None), (''logical'', Some VNone), (''alias'', Some VNone),
         (''doc'', Some VNone)] [VStr ''int''] [(''alias'', VStr ''int8'')]
     = Inr ([VStr ''int'', VNone, VStr ''int8'', VNone], [])"
  by (simp add: bind_def)

text \<open>
  \<^verbatim>\<open>IntType(8, alias="int8")\<close> where \<^verbatim>\<open>int8\<close> is registered, and where it is not.
\<close>

theorem alias_collision_witness:
  "(\<exists>s'. new IntType [VInt 8] [(''alias'', VStr ''int8'')]
            \<lparr>heap = [], type_registry = [(VStr ''int8'', 1)]\<rparr>
          = Raise (AliasUsed (VStr ''int8'')) s' \<and> type_registry s' = [(VStr ''int8'', 1)])
   \<and> (\<exists>s'. new IntType [VInt 8] [(''alias'', VStr ''int8'')] \<lparr>heap = [], type_registry = []\<rparr>
          = Return 1 s' \<and> type_registry s' = [(VStr ''int8'', 1)])"
  using alias_collision [OF init.simps(4) bind_int8_alias bind_base_alias,
          of "VStr ''int8''" "\<lparr>heap = [], type_registry = [(VStr ''int8'', 1)]\<rparr>"]
    alias_collision [OF init.simps(4) bind_int8_alias bind_base_alias,
          of "VStr ''int8''" "\<lparr>heap = [], type_registry = []\<rparr>"]
  by (simp add: fresh_def)

section \<open>Validation of required fields\<close>

text \<open>
  The fields the specification requires for a variant tag (its table of variants, with the
  keys of the input mapping: \<^verbatim>\<open>bytes\<close> is the maximal length of a string or of bytes,
  \<^verbatim>\<open>values\<close> the element type of a list, \<^verbatim>\<open>keys\<close> and \<^verbatim>\<open>values\<close> the types of a map,
  \<^verbatim>\<open>types\<close> the alternatives of a union).
\<close>

fun spec_required :: "string \<Rightarrow> string list" where
  "spec_required name =
     (if name = ''int'' then [''bits'']
      else if name = ''float'' then [''bits'']
      else if name = ''string'' then [''bytes'']
      else if name = ''bytes'' then [''bytes'']
      else if name = ''list'' then [''values'']
      else if name = ''map'' then [''keys'', ''values'']
      else if name = ''enum'' then [''symbols'']
      else if name = ''union'' then [''types'']
      else [])"

lemma map_of_rest: "k \<noteq> ''type'' \<Longrightarrow> k \<noteq> ''alias'' \<Longrightarrow> map_of (rest td) k = map_of td k"
  by (simp add: rest_def)

lemma missing_int:
  "map_of td ''bits'' = None \<Longrightarrow> \<exists>msg. from_name ''int'' td s = Raise (ValueError msg) s"
  by (simp add: from_name.simps)

lemma missing_float:
  "map_of td ''bits'' = None \<Longrightarrow> \<exists>msg. from_name ''float'' td s = Raise (ValueError msg) s"
  by (simp add: from_name.simps)

lemma missing_string:
  "map_of td ''bytes'' = None \<Longrightarrow> \<exists>msg. from_name ''string'' td s = Raise (ValueError msg) s"
  by (simp add: from_name.simps)

lemma missing_bytes:
  "map_of td ''bytes'' = None \<Longrightarrow> \<exists>msg. from_name ''bytes'' td s = Raise (ValueError msg) s"
  by (simp add: from_name.simps)

lemma missing_list:
  "map_of td ''values'' = None \<Longrightarrow> \<exists>msg. from_name ''list'' td s = Raise (ValueError msg) s"
  by (simp add: from_name.simps)

lemma missing_map_keys:
  "map_of td ''keys'' = None \<Longrightarrow> \<exists>msg. from_name ''map'' td s = Raise (ValueError msg) s"
  by (simp add: from_name.simps)

lemma missing_map_values:
  "map_of td ''values'' = None \<Longrightarrow> \<exists>msg. from_name ''map'' td s = Raise (ValueError msg) s"
  by (simp add: from_name.simps)

lemma missing_enum:
  "map_of td ''symbols'' = None \<Longrightarrow> \<exists>msg. from_name ''enum'' td s = Raise (ValueError msg) s"
  by (simp add: from_name.simps)

lemma missing_union:
  "map_of td ''types'' = None \<Longrightarrow> \<exists>msg. from_name ''union'' td s = Raise (ValueError msg) s"
  by (simp add: from_name.simps)

lemma spec_required_cases:
  assumes "f \<in> set (spec_required name)"
  shows "name = ''int'' \<and> f = ''bits'' \<or> name = ''float'' \<and> f = ''bits''
       \<or> name = ''string'' \<and> f = ''bytes'' \<or> name = ''bytes'' \<and> f = ''bytes''
       \<or> name = ''list'' \<and> f = ''values'' \<or> name = ''map'' \<and> f = ''keys''
       \<or> name = ''map'' \<and> f = ''values''
       \<or> name = ''enum'' \<and> f = ''symbols'' \<or> name = ''union'' \<and> f = ''types''"
  using assms by (simp split: if_splits)

lemma from_name_missing:
  assumes "f \<in> set (spec_required name)" "map_of td f = None"
  shows "\<exists>msg. from_name name td s = Raise (ValueError msg) s"
  using spec_required_cases [OF assms(1)] assms(2)
  by (elim disjE conjE) (simp_all only: missing_int missing_float missing_string missing_bytes
      missing_list missing_map_keys missing_map_values missing_enum missing_union)

lemma spec_required_not_popped:
  "f \<in> set (spec_required name) \<Longrightarrow> f \<noteq> ''type'' \<and> f \<noteq> ''alias''"
  by (drule spec_required_cases) auto

text \<open>
  C7. A mapping whose \<^verbatim>\<open>type\<close> is a variant tag and which lacks a field required for that
  tag is rejected with a \<^verbatim>\<open>ValueError\<close>, and so is a mapping without \<^verbatim>\<open>type\<close> (or with
  \<^verbatim>\<open>type\<close> \<^verbatim>\<open>None\<close>) and one whose \<^verbatim>\<open>type\<close> is neither a string nor a list. The error is
  raised before anything is written: the store is the one of the call.
\<close>

theorem missing_field_fails:
  "(get_or_none td ''type'' = JStr name \<and> f \<in> set (spec_required name) \<and> map_of td f = None
      \<longrightarrow> (\<exists>msg. from_dict (JDict td) s = Raise (ValueError msg) s))
   \<and> (get_or_none td ''type'' = JNull
      \<longrightarrow> (\<exists>msg. from_dict (JDict td) s = Raise (ValueError msg) s))
   \<and> ((\<forall>x. get_or_none td ''type'' \<noteq> JStr x) \<and> (\<forall>ts. get_or_none td ''type'' \<noteq> JList ts)
      \<longrightarrow> (\<exists>msg. from_dict (JDict td) s = Raise (ValueError msg) s))"
proof (intro conjI impI)
  assume a: "get_or_none td ''type'' = JStr name \<and> f \<in> set (spec_required name)
               \<and> map_of td f = None"
  then have "map_of (rest td) f = None"
    using spec_required_not_popped [of f name] by (simp add: map_of_rest)
  with a obtain msg where "from_name name (rest td) s = Raise (ValueError msg) s"
    using from_name_missing by blast
  with a show "\<exists>msg. from_dict (JDict td) s = Raise (ValueError msg) s"
    by (simp add: from_dict.simps)
next
  assume "get_or_none td ''type'' = JNull"
  then show "\<exists>msg. from_dict (JDict td) s = Raise (ValueError msg) s"
    by (simp add: from_dict.simps)
next
  assume "(\<forall>x. get_or_none td ''type'' \<noteq> JStr x) \<and> (\<forall>ts. get_or_none td ''type'' \<noteq> JList ts)"
  then show "\<exists>msg. from_dict (JDict td) s = Raise (ValueError msg) s"
    by (cases "get_or_none td ''type''") (simp_all add: from_dict.simps)
qed

text \<open>
  \<^verbatim>\<open>{"type": "int", "signed": false}\<close> lacks \<^verbatim>\<open>bits\<close>, \<^verbatim>\<open>{"bits": 8}\<close> lacks \<^verbatim>\<open>type\<close> and
  \<^verbatim>\<open>{"type": 7}\<close> has a \<^verbatim>\<open>type\<close> of the wrong shape.
\<close>

theorem missing_field_fails_witness:
  "(\<exists>msg. from_dict (JDict [(''type'', JStr ''int''), (''signed'', JBool False)])
             \<lparr>heap = [], type_registry = []\<rparr>
           = Raise (ValueError msg) \<lparr>heap = [], type_registry = []\<rparr>)
   \<and> (\<exists>msg. from_dict (JDict [(''bits'', JInt 8)]) \<lparr>heap = [], type_registry = []\<rparr>
           = Raise (ValueError msg) \<lparr>heap = [], type_registry = []\<rparr>)
   \<and> (\<exists>msg. from_dict (JDict [(''type'', JInt 7)]) \<lparr>heap = [], type_registry = []\<rparr>
           = Raise (ValueError msg) \<lparr>heap = [], type_registry = []\<rparr>)"
  using missing_field_fails [of "[(''type'', JStr ''int''), (''signed'', JBool False)]"
          "''int''" "''bits''" "\<lparr>heap = [], type_registry = []\<rparr>"]
    missing_field_fails [of "[(''bits'', JInt 8)]" "''int''" "''bits''"
          "\<lparr>heap = [], type_registry = []\<rparr>"]
    missing_field_fails [of "[(''type'', JInt 7)]" "''int''" "''bits''"
          "\<lparr>heap = [], type_registry = []\<rparr>"]
  by (simp add: get_or_none_def)

end
